theory Spec2Isabelle
  imports Complex_Main "HOL-Library.Sublist" "HOL-Library.Multiset"
begin

section \<open>Python values used by the assistant\<close>

text \<open>
  Strings are lists of characters. A character is a code point below 256 (Latin-1), which
  covers every literal of the program; \<open>str.lower\<close> and \<open>str.strip\<close> are written out for
  that range. Prices are Python floats; they are taken as exact rationals, so the
  not-a-number value and rounding are outside the model.
\<close>

type_synonym number = rat

definition lower_char :: "char \<Rightarrow> char" where
  "lower_char c =
     (let n = (of_char c :: nat)
      in if (65 \<le> n \<and> n \<le> 90) \<or> (192 \<le> n \<and> n \<le> 222 \<and> n \<noteq> 215)
         then char_of (n + 32) else c)"

definition lower :: "string \<Rightarrow> string" where
  "lower s = map lower_char s"

definition is_space :: "char \<Rightarrow> bool" where
  "is_space c =
     (let n = (of_char c :: nat)
      in (9 \<le> n \<and> n \<le> 13) \<or> (28 \<le> n \<and> n \<le> 32) \<or> n = 133 \<or> n = 160)"

definition strip :: "string \<Rightarrow> string" where
  "strip s = rev (dropWhile is_space (rev (dropWhile is_space s)))"

text \<open>\<open>py_in t s\<close> is Python's \<open>t in s\<close> on strings: \<open>t\<close> occurs in \<open>s\<close> as a contiguous run.\<close>

fun py_in :: "string \<Rightarrow> string \<Rightarrow> bool" where
  "py_in t [] = (t = [])"
| "py_in t (c # cs) = (prefix t (c # cs) \<or> py_in t cs)"

text \<open>\<open>any(t in s for t in ts)\<close>.\<close>

definition any_in :: "string list \<Rightarrow> string \<Rightarrow> bool" where
  "any_in ts s = list_ex (\<lambda>t. py_in t s) ts"

text \<open>
  \<open>list(dict.fromkeys(xs))\<close>: the keys are inserted one by one into an insertion-ordered
  dictionary; inserting a key that is already present leaves its position alone.
\<close>

definition dict_insert_key :: "'a list \<Rightarrow> 'a \<Rightarrow> 'a list" where
  "dict_insert_key keys k = (if k \<in> set keys then keys else keys @ [k])"

definition list_dict_fromkeys :: "'a list \<Rightarrow> 'a list" where
  "list_dict_fromkeys xs = foldl dict_insert_key [] xs"

section \<open>The preference record (models/preferences.py)\<close>

record UserPreferences =
  price_min :: "number option"
  price_max :: "number option"
  brands :: "string list"
  categories :: "string list"
  colors :: "string list"
  materials :: "string list"
  features :: "string list"

definition empty_preferences :: UserPreferences where
  "empty_preferences =
     \<lparr>price_min = None, price_max = None, brands = [], categories = [], colors = [],
      materials = [], features = []\<rparr>"

definition has_active_preferences :: "UserPreferences \<Rightarrow> bool" where
  "has_active_preferences p =
     (price_min p \<noteq> None \<or> price_max p \<noteq> None \<or> brands p \<noteq> [] \<or> categories p \<noteq> [] \<or>
      colors p \<noteq> [] \<or> materials p \<noteq> [] \<or> features p \<noteq> [])"

definition clear :: "UserPreferences \<Rightarrow> UserPreferences" where
  "clear p =
     p\<lparr>price_min := None, price_max := None, brands := [], categories := [], colors := [],
       materials := [], features := []\<rparr>"

section \<open>Merging a delta (services/preference\_service.py)\<close>

text \<open>
  \<open>_merge_preferences\<close> mutates \<open>self.current_preferences\<close>; here the current record is the
  first argument and the updated record is returned.
\<close>

definition merge_preferences :: "UserPreferences \<Rightarrow> UserPreferences \<Rightarrow> bool \<Rightarrow> UserPreferences" where
  "merge_preferences cur new_prefs append_mode =
     (let merged =
        (if append_mode then
           cur\<lparr>brands := list_dict_fromkeys (brands cur @ brands new_prefs),
               categories := list_dict_fromkeys (categories cur @ categories new_prefs),
               colors := list_dict_fromkeys (colors cur @ colors new_prefs),
               materials := list_dict_fromkeys (materials cur @ materials new_prefs),
               features := list_dict_fromkeys (features cur @ features new_prefs)\<rparr>
         else
           cur\<lparr>brands := (if brands new_prefs \<noteq> [] then brands new_prefs else brands cur),
               categories :=
                 (if categories new_prefs \<noteq> [] then categories new_prefs else categories cur),
               colors := (if colors new_prefs \<noteq> [] then colors new_prefs else colors cur),
               materials :=
                 (if materials new_prefs \<noteq> [] then materials new_prefs else materials cur),
               features :=
                 (if features new_prefs \<noteq> [] then features new_prefs else features cur)\<rparr>)
      in merged\<lparr>price_min :=
                  (case price_min new_prefs of Some v \<Rightarrow> Some v | None \<Rightarrow> price_min merged),
                price_max :=
                  (case price_max new_prefs of Some v \<Rightarrow> Some v | None \<Rightarrow> price_max merged)\<rparr>)"

text \<open>
  The specification's wording of append mode: the concatenation with later repetitions
  removed, every token staying where it was first seen.
\<close>

function dedup_first_seen :: "'a list \<Rightarrow> 'a list" where
  "dedup_first_seen [] = []"
| "dedup_first_seen (x # xs) = x # dedup_first_seen (removeAll x xs)"
  by pat_completeness auto
termination
  by (relation "measure length") (auto simp: less_Suc_eq_le length_removeAll_less_eq)

section \<open>Vocabularies (config/settings.py)\<close>

text \<open>
  The three tables are Python sets and a dict. Membership does not depend on the iteration
  order of a set; the one loop over \<open>VALID_BRANDS\<close> stops at the first entry whose lower-case
  form equals the token, and the lower-case forms are pairwise different, so the listing order
  below does not matter either.
\<close>

definition BAG_CATEGORIES :: "string list" where
  "BAG_CATEGORIES =
     [''tote'', ''shoulder bag'', ''duffle bag'', ''backpack'', ''clutch'', ''crossbody'',
      ''handbag'', ''messenger'', ''satchel'', ''laptop bag'', ''briefcase'', ''wristlet'',
      ''wallet'', ''purse'']"

definition VALID_BRANDS :: "string list" where
  "VALID_BRANDS =
     [''1978W'', ''Active Flex'', ''Alan Pinkus'', ''Amelia Lane'', ''American Tourister'',
      ''Armani Exchange'', ''Australian House & Garden'', ''Basque'', ''Belle & Bloom'',
      ''Billabong'', ''Boutique Retailer'', ''Calvin Klein'', ''Cellini'', ''Cellini Sport'',
      ''Commonry'', ''Country Road'', ''Creed'', ''David Lawrence'', ''Delsey'', ''Disney'',
      ''Dune London'', ''Elliker'', ''emerge Woman'', ''Fella Hamilton'', ''Fine Day'',
      ''Forever New'', ''Fossil'', ''GAP'', ''Guess'', ''Hedgren'', ''Hot Wheels'',
      ''Jane Debster'', ''Joan Weisz'', ''Kinnon'', ''La Enviro'', ''Lacoste'',
      ''Lauren Ralph Lauren'', ''Levi's'', ''Madison Accessories'', ''Maine & Crawford'',
      ''Marcs'', ''Maxwell & Williams'', ''Milleni'', ''Mimco'', ''Mocha'', ''Morgan & Taylor'',
      ''Nakedvice'', ''NINA'', ''Nine West'', ''Novo Shoes'', ''OiOi'', ''Olga Berg'', ''Oxford'',
      ''PIERRE CARDIN'', ''PINK INC'', ''Piper'', ''Prairie'', ''Radley'', ''Ravella'',
      ''Rebecca Minkoff'', ''REVIEW'', ''Roxy'', ''RVCA'', ''Samsonite'', ''Sandler'',
      ''Sass & Bide'', ''Scala'', ''Seafolly'', ''Seed Heritage'', ''Senso'', ''Status Anxiety'',
      ''Steve Madden'', ''Taking Shape'', ''TATONKA'', ''Tokito'', ''Tommy Hilfiger'', ''Tonic'',
      ''Trenery'', ''Trent Nathan'', ''Unison'', ''Wishes'', ''Witchery'', ''Yellow Drama'']"

definition BRAND_CORRECTIONS :: "(string \<times> string) list" where
  "BRAND_CORRECTIONS =
     [(''ck'', ''Calvin Klein''), (''rm'', ''Rebecca Minkoff''), (''th'', ''Tommy Hilfiger''),
      (''pierre'', ''PIERRE CARDIN''), (''calvin'', ''Calvin Klein''),
      (''tommy'', ''Tommy Hilfiger''), (''ralph lauren'', ''Lauren Ralph Lauren''),
      (''american t'', ''American Tourister''), (''fossil bag'', ''Fossil''),
      (''guess bag'', ''Guess'')]"

section \<open>Normalising a delta (services/preference\_service.py)\<close>

text \<open>
  \<open>_validate_brands\<close>: the inner \<open>for \<dots> break \<dots> else\<close> is the search for the first
  vocabulary entry with the token's lower-case form. The result is the pair
  \<open>(valid_brands, invalid_brands)\<close>.
\<close>

fun validate_brands :: "string list \<Rightarrow> string list \<times> string list" where
  "validate_brands [] = ([], [])"
| "validate_brands (brand # rest) =
     (let brand_lower = strip (lower brand);
          (valid_brands, invalid_brands) = validate_brands rest
      in case find (\<lambda>valid_brand. brand_lower = lower valid_brand) VALID_BRANDS of
           Some valid_brand \<Rightarrow> (valid_brand # valid_brands, invalid_brands)
         | None \<Rightarrow>
             (case map_of BRAND_CORRECTIONS brand_lower of
                Some corrected \<Rightarrow> (corrected # valid_brands, invalid_brands)
              | None \<Rightarrow> (valid_brands, brand # invalid_brands)))"

definition category_corrections :: "(string \<times> string) list" where
  "category_corrections =
     [(''tote'', ''tote bag''), (''cross body'', ''crossbody''), (''cross-body'', ''crossbody''),
      (''shoulder'', ''shoulder bag''), (''laptop'', ''laptop bag''), (''duffle'', ''duffle bag''),
      (''duffel'', ''duffle bag'')]"

text \<open>\<open>_validate_categories\<close>: the result is the pair \<open>(valid_categories, features_to_add)\<close>.\<close>

fun validate_categories :: "string list \<Rightarrow> string list \<times> string list" where
  "validate_categories [] = ([], [])"
| "validate_categories (c # rest) =
     (let category = strip (lower c);
          (valid_categories, features_to_add) = validate_categories rest
      in if category \<in> set BAG_CATEGORIES then (category # valid_categories, features_to_add)
         else
           (case map_of category_corrections category of
              Some corrected \<Rightarrow>
                if corrected \<in> set BAG_CATEGORIES
                then (corrected # valid_categories, features_to_add)
                else (valid_categories, features_to_add)
            | None \<Rightarrow>
                if category @ '' bag'' \<in> set BAG_CATEGORIES
                then ((category @ '' bag'') # valid_categories, features_to_add)
                else if category \<noteq> ''tote''
                then (valid_categories, category # features_to_add)
                else (valid_categories, features_to_add)))"

definition analyze_intent :: "string \<Rightarrow> bool" where
  "analyze_intent user_input =
     any_in [''also'', ''as well'', ''additionally'', ''and'', ''too'', ''along with'']
       (lower user_input)"

text \<open>
  The first half of \<open>_validate_and_merge\<close>: the delta with its brands and categories
  validated and the rejected category tokens appended to its features.
\<close>

definition validated :: "UserPreferences \<Rightarrow> UserPreferences" where
  "validated new_prefs =
     (let p1 =
            (if brands new_prefs \<noteq> []
             then new_prefs\<lparr>brands := fst (validate_brands (brands new_prefs))\<rparr>
             else new_prefs)
      in if categories p1 \<noteq> [] then
           (case validate_categories (categories p1) of
              (valid_categories, features_to_add) \<Rightarrow>
                p1\<lparr>categories := valid_categories, features := features p1 @ features_to_add\<rparr>)
         else p1)"

definition validate_and_merge :: "UserPreferences \<Rightarrow> UserPreferences \<Rightarrow> string \<Rightarrow> UserPreferences" where
  "validate_and_merge cur new_prefs user_input =
     merge_preferences cur (validated new_prefs) (analyze_intent user_input)"

section \<open>Candidate documents and the collaborators\<close>

text \<open>
  A metadata value is a string, a number, or something \<open>float()\<close> rejects with a
  \<open>TypeError\<close> (such as \<open>None\<close>). A missing key is \<open>None\<close> at the field. The name and brand
  of a candidate are strings when present.
\<close>

datatype meta_value = MStr string | MNum number | MNone

record Document =
  page_content :: string
  meta_url :: "string option"
  meta_name :: "string option"
  meta_brand :: "string option"
  meta_price :: "meta_value option"

datatype error = Raised string

datatype message = HumanMessage string | AIMessage string

text \<open>
  The environment of a session: the two language-model chains of the Azure service (\<open>None\<close>
  when the service is not configured), the vector store (\<open>None\<close> when it could not be
  loaded), the catalog's map from product URL to image, and the product formatter of the
  presentation layer. A call to a chain or to the store reads and changes the outside world
  \<open>'w\<close> and either raises or returns. The extraction chain stands for the call, the JSON
  parse and \<open>UserPreferences.from_dict\<close> together: \<open>Inl\<close> is a raised exception or text that
  is no JSON object, \<open>Inr\<close> the delta of the record's shape. Two builtins are left abstract:
  \<open>float()\<close> on a string, and the text of a number inside an f-string.
\<close>

record 'w env =
  preference_chain :: "(string \<Rightarrow> UserPreferences \<Rightarrow> 'w \<Rightarrow> (error + UserPreferences) \<times> 'w) option"
  conversation_chain :: "(string \<Rightarrow> string \<Rightarrow> string \<Rightarrow> 'w \<Rightarrow> (error + string) \<times> 'w) option"
  vectorstore :: "(string \<Rightarrow> int \<Rightarrow> 'w \<Rightarrow> (error + Document list) \<times> 'w) option"
  url_to_image :: "string \<rightharpoonup> string"
  format_product_doc :: "Document \<Rightarrow> string"
  float_of_str :: "string \<Rightarrow> number option"
  str_of_number :: "number \<Rightarrow> string"

record 'w session =
  current_preferences :: UserPreferences
  messages :: "message list"
  world :: 'w

section \<open>Filtering candidates (utils/validators.py)\<close>

text \<open>\<open>float(v)\<close>; \<open>None\<close> is a \<open>ValueError\<close> or \<open>TypeError\<close>.\<close>

definition py_float :: "'w env \<Rightarrow> meta_value \<Rightarrow> number option" where
  "py_float env v = (case v of MStr s \<Rightarrow> float_of_str env s | MNum n \<Rightarrow> Some n | MNone \<Rightarrow> None)"

text \<open>\<open>meta.get('price', 0)\<close>.\<close>

definition get_price :: "Document \<Rightarrow> meta_value" where
  "get_price doc = (case meta_price doc of None \<Rightarrow> MNum 0 | Some v \<Rightarrow> v)"

text \<open>\<open>s.replace(c, '')\<close> for a single character \<open>c\<close>.\<close>

definition remove_char :: "char \<Rightarrow> string \<Rightarrow> string" where
  "remove_char c s = filter (\<lambda>x. x \<noteq> c) s"

definition get_str :: "string option \<Rightarrow> string" where
  "get_str v = (case v of None \<Rightarrow> [] | Some s \<Rightarrow> s)"

definition matches_preferences :: "'w env \<Rightarrow> Document \<Rightarrow> UserPreferences \<Rightarrow> bool" where
  "matches_preferences env doc preferences =
     (let content_lower = lower (page_content doc);
          doc_name = lower (get_str (meta_name doc));
          searchable_text = doc_name @ '' '' @ content_lower;
          price_ok =
            (if price_min preferences \<noteq> None \<or> price_max preferences \<noteq> None then
               (case (case get_price doc of
                        MStr s \<Rightarrow> float_of_str env (remove_char CHR '','' (remove_char CHR ''$'' s))
                      | v \<Rightarrow> py_float env v) of
                  None \<Rightarrow> False
                | Some doc_price \<Rightarrow>
                    if (case price_max preferences of None \<Rightarrow> False | Some mx \<Rightarrow> doc_price > mx)
                    then False
                    else if (case price_min preferences of None \<Rightarrow> False | Some mn \<Rightarrow> doc_price < mn)
                    then False
                    else True)
             else True)
      in if \<not> price_ok then False
         else if brands preferences \<noteq> [] \<and>
                 \<not> list_ex (\<lambda>brand. py_in (lower brand) (lower (get_str (meta_brand doc))))
                     (brands preferences)
         then False
         else if colors preferences \<noteq> [] \<and>
                 \<not> list_ex (\<lambda>color. py_in (lower color) searchable_text) (colors preferences)
         then False
         else if categories preferences \<noteq> [] \<and>
                 \<not> list_ex (\<lambda>category. py_in (lower category) searchable_text)
                     (categories preferences)
         then False
         else True)"

definition is_relevant_to_shopping :: "string \<Rightarrow> bool" where
  "is_relevant_to_shopping user_input =
     (let shopping_terms =
            [''bag'', ''handbag'', ''purse'', ''tote'', ''backpack'', ''clutch'', ''wallet'',
             ''shopping'', ''buy'', ''purchase'', ''price'', ''cost'', ''delivery'', ''shipping'',
             ''brand'', ''leather'', ''canvas'', ''product'', ''item'', ''store''];
          common_phrases = [''hi'', ''hello'', ''thank'', ''bye'', ''help'', ''clear'', ''reset'']
      in any_in (shopping_terms @ common_phrases) (lower user_input))"

section \<open>Searching (services/search\_service.py)\<close>

text \<open>\<open>sep.join(parts)\<close>.\<close>

fun join :: "string \<Rightarrow> string list \<Rightarrow> string" where
  "join sep [] = []"
| "join sep [x] = x"
| "join sep (x # y # ys) = x @ sep @ join sep (y # ys)"

definition build_search_query_with_preferences :: "string \<Rightarrow> UserPreferences \<Rightarrow> string" where
  "build_search_query_with_preferences user_question preferences =
     join '' ''
       ([user_question] @ materials preferences @ colors preferences @ categories preferences @
        brands preferences)"

text \<open>
  The filter loop of \<open>search_products\<close>: a kept document has its price metadata replaced by
  the parsed number; a document whose price \<open>float()\<close> rejects is skipped.
\<close>

fun filter_docs :: "'w env \<Rightarrow> UserPreferences \<Rightarrow> Document list \<Rightarrow> Document list" where
  "filter_docs env preferences [] = []"
| "filter_docs env preferences (doc # docs) =
     (if (case meta_url doc of None \<Rightarrow> False | Some u \<Rightarrow> u \<in> dom (url_to_image env)) \<and>
         matches_preferences env doc preferences
      then (case py_float env (get_price doc) of
              Some price \<Rightarrow> doc\<lparr>meta_price := Some (MNum price)\<rparr> # filter_docs env preferences docs
            | None \<Rightarrow> filter_docs env preferences docs)
      else filter_docs env preferences docs)"

text \<open>
  The sort key \<open>float(x.metadata.get('price', 0))\<close>; on the filtered list the price is
  already a number, so the conversion cannot fail there.
\<close>

definition price_key :: "'w env \<Rightarrow> Document \<Rightarrow> number" where
  "price_key env doc = (case py_float env (get_price doc) of Some p \<Rightarrow> p | None \<Rightarrow> 0)"

text \<open>
  \<open>list.sort(key=\<dots>, reverse=True)\<close> is stable: documents with equal keys keep their
  order. Insertion from the right, placing a document before the first one whose key is not
  larger, is such a sort.
\<close>

fun insert_desc :: "('a \<Rightarrow> number) \<Rightarrow> 'a \<Rightarrow> 'a list \<Rightarrow> 'a list" where
  "insert_desc key x [] = [x]"
| "insert_desc key x (y # ys) = (if key y \<le> key x then x # y # ys else y # insert_desc key x ys)"

definition sort_desc :: "('a \<Rightarrow> number) \<Rightarrow> 'a list \<Rightarrow> 'a list" where
  "sort_desc key xs = foldr (insert_desc key) xs []"

text \<open>\<open>xs[:n]\<close> for a Python integer \<open>n\<close>; a negative \<open>n\<close> counts from the end.\<close>

definition slice_to :: "int \<Rightarrow> 'a list \<Rightarrow> 'a list" where
  "slice_to n xs = (if 0 \<le> n then take (nat n) xs else take (length xs - nat (- n)) xs)"

text \<open>\<open>VectorService.search\<close> and \<open>VectorService.is_available\<close>.\<close>

definition vector_search :: "'w env \<Rightarrow> string \<Rightarrow> int \<Rightarrow> 'w \<Rightarrow> (error + Document list) \<times> 'w" where
  "vector_search env query k w =
     (case vectorstore env of None \<Rightarrow> (Inr [], w) | Some similarity_search \<Rightarrow> similarity_search query k w)"

definition vector_is_available :: "'w env \<Rightarrow> bool" where
  "vector_is_available env = (vectorstore env \<noteq> None)"

text \<open>\<open>search_products\<close> has no handler of its own: an exception of the store is its result.\<close>

definition search_products ::
  "'w env \<Rightarrow> string \<Rightarrow> UserPreferences \<Rightarrow> int \<Rightarrow> 'w \<Rightarrow> (error + Document list) \<times> 'w" where
  "search_products env query preferences max_results w =
     (if \<not> vector_is_available env then (Inr [], w)
      else
        (let enhanced_query = build_search_query_with_preferences query preferences
         in case vector_search env enhanced_query 30 w of
              (Inl e, w') \<Rightarrow> (Inl e, w')
            | (Inr docs, w') \<Rightarrow>
                (Inr (slice_to max_results
                        (sort_desc (price_key env) (filter_docs env preferences docs))), w')))"

text \<open>\<open>str.split()\<close>: the maximal runs of characters that are not white space.\<close>

fun split_acc :: "string \<Rightarrow> string \<Rightarrow> string list" where
  "split_acc word [] = (if word = [] then [] else [word])"
| "split_acc word (c # cs) =
     (if is_space c then (if word = [] then split_acc [] cs else word # split_acc [] cs)
      else split_acc (word @ [c]) cs)"

definition py_split :: "string \<Rightarrow> string list" where
  "py_split s = split_acc [] s"

text \<open>\<open>should_search_products\<close> returns \<open>True\<close> or falls off its end (\<open>None\<close>, read as false).\<close>

definition should_search_products :: "string \<Rightarrow> bool \<Rightarrow> bool" where
  "should_search_products user_input has_preferences =
     (let user_input_lower = lower user_input;
          search_keywords =
            [''show'', ''find'', ''search'', ''look'', ''recommend'', ''suggest'', ''want'', ''need'',
             ''display'', ''see'', ''browse'', ''shopping'', ''buy'', ''purchase'', ''get me'',
             ''what about'', ''how about'', ''any'', ''do you have''];
          product_terms =
            [''bag'', ''handbag'', ''purse'', ''tote'', ''backpack'', ''clutch'', ''wallet'',
             ''crossbody'', ''shoulder'', ''messenger'', ''satchel'', ''briefcase''];
          refinement_terms =
            [''leather'', ''canvas'', ''black'', ''brown'', ''cheap'', ''expensive'', ''small'',
             ''large'']
      in if any_in search_keywords user_input_lower then True
         else if has_preferences \<and> any_in refinement_terms user_input_lower then True
         else if has_preferences \<and> length (py_split user_input) \<le> 3 then True
         else if any_in product_terms user_input_lower then True
         else False)"

section \<open>The preference service against its collaborator\<close>

text \<open>
  \<open>update_preferences\<close>: without a chain the record is returned as it is; an exception of
  the chain, of the JSON parse or of \<open>from_dict\<close> is printed and the record stays.
\<close>

definition update_preferences :: "'w env \<Rightarrow> string \<Rightarrow> 'w session \<Rightarrow> 'w session" where
  "update_preferences env user_input s =
     (case preference_chain env of
        None \<Rightarrow> s
      | Some chain \<Rightarrow>
          (case chain user_input (current_preferences s) (world s) of
             (Inl e, w) \<Rightarrow> s\<lparr>world := w\<rparr>
           | (Inr new_prefs, w) \<Rightarrow>
               s\<lparr>current_preferences :=
                    validate_and_merge (current_preferences s) new_prefs user_input,
                  world := w\<rparr>))"

definition truthy :: "number option \<Rightarrow> bool" where
  "truthy v = (case v of None \<Rightarrow> False | Some x \<Rightarrow> x \<noteq> 0)"

definition num_str :: "'w env \<Rightarrow> number option \<Rightarrow> string" where
  "num_str env v = (case v of None \<Rightarrow> ''None'' | Some x \<Rightarrow> str_of_number env x)"

definition get_summary :: "'w env \<Rightarrow> UserPreferences \<Rightarrow> string" where
  "get_summary env prefs =
     (let parts =
            (if truthy (price_min prefs) \<and> truthy (price_max prefs)
             then [''Price: $'' @ num_str env (price_min prefs) @ ''-$'' @
                   num_str env (price_max prefs)]
             else if truthy (price_min prefs)
             then [''Price: Above $'' @ num_str env (price_min prefs)]
             else if truthy (price_max prefs)
             then [''Price: Under $'' @ num_str env (price_max prefs)]
             else []) @
            (if brands prefs \<noteq> [] then [''Brands: '' @ join '', '' (brands prefs)] else []) @
            (if categories prefs \<noteq> [] then [''Categories: '' @ join '', '' (categories prefs)]
             else []) @
            (if colors prefs \<noteq> [] then [''Colors: '' @ join '', '' (colors prefs)] else []) @
            (if materials prefs \<noteq> [] then [''Materials: '' @ join '', '' (materials prefs)]
             else [])
      in if parts \<noteq> [] then join '' | '' parts else ''No active preferences set'')"

section \<open>The conversation workflow (workflows/conversation\_flow.py)\<close>

record BotState =
  chat_history :: "message list"
  question :: string
  answer :: string
  should_retrieve :: bool

definition redirect_message :: string where
  "redirect_message =
     ''I'm here to help with shopping-related questions like products, prices, or bags. '' @
     ''Let me know how I can assist you with that!''"

definition cleared_message :: string where
  "cleared_message = ''Your preferences have been cleared! Feel free to set new ones.''"

definition canned_reply :: string where
  "canned_reply = ''I'm here to help you find bags and accessories! What are you looking for?''"

definition search_error_message :: string where
  "search_error_message = ''Sorry, I encountered an error while searching. Please try again.''"

definition no_products_message :: string where
  "no_products_message =
     ''I couldn't find any products matching your criteria. Try adjusting your preferences.''"

definition technical_difficulties_message :: string where
  "technical_difficulties_message =
     ''I apologize, but I'm experiencing some technical difficulties. Please try again.''"

definition product_grid :: "'w env \<Rightarrow> Document list \<Rightarrow> string" where
  "product_grid env docs =
     ''<div style='' @ [CHR 0x22] @
     ''display: flex; flex-wrap: wrap; gap: 20px; justify-content: center;'' @ [CHR 0x22] @
     ''>'' @ [CHR 0x0A] @ concat (map (format_product_doc env) docs) @ [CHR 0x0A] @ ''</div>''"

definition updated_prefix :: "'w env \<Rightarrow> UserPreferences \<Rightarrow> string" where
  "updated_prefix env prefs =
     ''Updated preferences to: '' @ get_summary env prefs @ [CHR 0x0A] @
     replicate 20 CHR '' '' @ [CHR 0x0A]"

definition process_input_and_route :: "'w env \<Rightarrow> BotState \<times> 'w session \<Rightarrow> BotState \<times> 'w session" where
  "process_input_and_route env = (\<lambda>(state, s).
     (let user_input = question state
      in if \<not> is_relevant_to_shopping user_input
         then (state\<lparr>answer := redirect_message, should_retrieve := False\<rparr>, s)
         else
           (let s1 = update_preferences env user_input s
            in (state\<lparr>should_retrieve :=
                        should_search_products user_input
                          (has_active_preferences (current_preferences s1))\<rparr>, s1))))"

text \<open>
  \<open>_handle_preference_update\<close> keeps \<open>previous_prefs\<close>, a shallow copy of the record's
  dictionary: its lists are the list objects the record holds before the update. Append mode
  extends those objects in place before it rebinds each field to a fresh deduplicated list;
  replace mode only rebinds. \<open>previous_prefs_after\<close> is what \<open>previous_prefs\<close> holds when the
  comparison is made.
\<close>

definition extended_in_place :: "UserPreferences \<Rightarrow> UserPreferences \<Rightarrow> bool \<Rightarrow> UserPreferences" where
  "extended_in_place cur new_prefs append_mode =
     (if append_mode then
        cur\<lparr>brands := brands cur @ brands new_prefs,
            categories := categories cur @ categories new_prefs,
            colors := colors cur @ colors new_prefs,
            materials := materials cur @ materials new_prefs,
            features := features cur @ features new_prefs\<rparr>
      else cur)"

definition previous_prefs_after :: "'w env \<Rightarrow> string \<Rightarrow> 'w session \<Rightarrow> UserPreferences" where
  "previous_prefs_after env user_input s =
     (case preference_chain env of
        None \<Rightarrow> current_preferences s
      | Some chain \<Rightarrow>
          (case fst (chain user_input (current_preferences s) (world s)) of
             Inl e \<Rightarrow> current_preferences s
           | Inr new_prefs \<Rightarrow>
               extended_in_place (current_preferences s) (validated new_prefs)
                 (analyze_intent user_input)))"

text \<open>\<open>any(previous_prefs[key] != updated_prefs.to_dict()[key] for key in previous_prefs)\<close>.\<close>

definition prefs_differ :: "UserPreferences \<Rightarrow> UserPreferences \<Rightarrow> bool" where
  "prefs_differ a b =
     (price_min a \<noteq> price_min b \<or> price_max a \<noteq> price_max b \<or> brands a \<noteq> brands b \<or>
      categories a \<noteq> categories b \<or> colors a \<noteq> colors b \<or> materials a \<noteq> materials b \<or>
      features a \<noteq> features b)"

definition handle_preference_update ::
  "'w env \<Rightarrow> string \<Rightarrow> BotState \<times> 'w session \<Rightarrow> bool \<times> BotState \<times> 'w session" where
  "handle_preference_update env user_question = (\<lambda>(state, s).
     (let previous_prefs = previous_prefs_after env user_question s;
          s1 = update_preferences env user_question s;
          preference_updated = prefs_differ previous_prefs (current_preferences s1)
      in if preference_updated then
           (case search_products env user_question (current_preferences s1) 6 (world s1) of
              (Inl e, w) \<Rightarrow> (False, state, s1\<lparr>world := w\<rparr>)
            | (Inr docs, w) \<Rightarrow>
                (True,
                 state\<lparr>answer :=
                   (if docs \<noteq> [] then
                      updated_prefix env (current_preferences s1) @
                      ''Here are products matching your updated criteria:'' @ [CHR 0x0A] @
                      product_grid env docs
                    else
                      updated_prefix env (current_preferences s1) @
                      ''I couldn't find any products matching these exact criteria. '' @
                      ''Try adjusting your preferences.'')\<rparr>,
                 s1\<lparr>world := w\<rparr>))
         else (False, state, s1)))"

definition handle_product_search :: "'w env \<Rightarrow> string \<Rightarrow> BotState \<times> 'w session \<Rightarrow> BotState \<times> 'w session" where
  "handle_product_search env user_question = (\<lambda>(state, s).
     (case search_products env user_question (current_preferences s) 6 (world s) of
        (Inl e, w) \<Rightarrow> (state\<lparr>answer := search_error_message\<rparr>, s\<lparr>world := w\<rparr>)
      | (Inr docs, w) \<Rightarrow>
          (state\<lparr>answer :=
             (if docs = [] then no_products_message
              else ''Here are some products that match your criteria, '' @
                   ''sorted by price (highest to lowest):'' @ [CHR 0x0A] @
                   product_grid env docs)\<rparr>,
           s\<lparr>world := w\<rparr>)))"

definition message_line :: "message \<Rightarrow> string" where
  "message_line msg =
     (case msg of HumanMessage c \<Rightarrow> ''User: '' @ c | AIMessage c \<Rightarrow> ''Assistant: '' @ c)"

definition recent_messages :: "message list \<Rightarrow> message list" where
  "recent_messages ms = (if length ms > 6 then drop (length ms - 6) ms else ms)"

definition handle_general_conversation ::
  "'w env \<Rightarrow> string \<Rightarrow> BotState \<times> 'w session \<Rightarrow> BotState \<times> 'w session" where
  "handle_general_conversation env user_question = (\<lambda>(state, s).
     if any_in [''clear preferences'', ''reset preferences'', ''start over''] (lower user_question)
     then (state\<lparr>answer := cleared_message\<rparr>,
           s\<lparr>current_preferences := clear (current_preferences s)\<rparr>)
     else
       (case conversation_chain env of
          Some chain \<Rightarrow>
            (let recent_chat_str = join [CHR 0x0A] (map message_line (recent_messages (messages s)))
             in case chain (get_summary env (current_preferences s)) recent_chat_str user_question
                       (world s) of
                  (Inr text, w) \<Rightarrow> (state\<lparr>answer := text\<rparr>, s\<lparr>world := w\<rparr>)
                | (Inl e, w) \<Rightarrow> (state\<lparr>answer := canned_reply\<rparr>, s\<lparr>world := w\<rparr>))
        | None \<Rightarrow> (state\<lparr>answer := canned_reply\<rparr>, s)))"

definition execute_search_or_respond :: "'w env \<Rightarrow> BotState \<times> 'w session \<Rightarrow> BotState \<times> 'w session" where
  "execute_search_or_respond env = (\<lambda>(state, s).
     (let user_question = question state
      in case handle_preference_update env user_question (state, s) of
           (preference_updated, state1, s1) \<Rightarrow>
             if preference_updated then (state1, s1)
             else
               (case (if should_retrieve state1
                      then handle_product_search env user_question (state1, s1)
                      else handle_general_conversation env user_question (state1, s1)) of
                  (state2, s2) \<Rightarrow>
                    (state2,
                     s2\<lparr>messages :=
                          messages s2 @ [HumanMessage (question state2), AIMessage (answer state2)]\<rparr>))))"

text \<open>
  The compiled graph: entry point \<open>process_and_route\<close>, an unconditional edge to
  \<open>search_or_respond\<close>, which is the finish point. Every fallible call is handled inside the
  nodes, so the run ends without an exception.
\<close>

definition agent_invoke :: "'w env \<Rightarrow> BotState \<times> 'w session \<Rightarrow> error + BotState \<times> 'w session" where
  "agent_invoke env st = Inr (execute_search_or_respond env (process_input_and_route env st))"

definition process_message :: "'w env \<Rightarrow> string \<Rightarrow> 'w session \<Rightarrow> string \<times> 'w session" where
  "process_message env user_input s =
     (let state =
            \<lparr>chat_history = messages s, question = user_input, answer = [],
             should_retrieve = False\<rparr>
      in case agent_invoke env (state, s) of
           Inr (result, s') \<Rightarrow> (answer result, s')
         | Inl e \<Rightarrow> (technical_difficulties_message, s))"

section \<open>The specification's hard filter\<close>





section \<open>Concrete sessions\<close>

text \<open>An assistant started without credentials: no chain, no vector store, empty catalog.\<close>

definition unconfigured_env :: "unit env" where
  "unconfigured_env =
     \<lparr>preference_chain = None, conversation_chain = None, vectorstore = None,
      url_to_image = Map.empty, format_product_doc = (\<lambda>doc. get_str (meta_name doc)),
      float_of_str = (\<lambda>s. None), str_of_number = (\<lambda>n. ''0'')\<rparr>"


definition new_session :: "unit session" where
  "new_session = \<lparr>current_preferences = empty_preferences, messages = [], world = ()\<rparr>"

definition red_session :: "unit session" where
  "red_session =
     \<lparr>current_preferences = empty_preferences\<lparr>colors := [''red'']\<rparr>, messages = [], world = ()\<rparr>"




section \<open>First-seen deduplication\<close>

lemma foldl_dict_insert_key:
  "foldl dict_insert_key acc xs = acc @ dedup_first_seen (filter (\<lambda>x. x \<notin> set acc) xs)"
proof (induction xs arbitrary: acc)
  case Nil
  then show ?case by simp
next
  case (Cons x xs)
  show ?case
  proof (cases "x \<in> set acc")
    case True
    then show ?thesis using Cons.IH [of acc] by (simp add: dict_insert_key_def)
  next
    case False
    have "removeAll x (filter (\<lambda>y. y \<notin> set acc) xs) = filter (\<lambda>y. y \<notin> set (acc @ [x])) xs"
      by (induction xs) auto
    then show ?thesis using False Cons.IH [of "acc @ [x]"] by (simp add: dict_insert_key_def)
  qed
qed

lemma list_dict_fromkeys_eq: "list_dict_fromkeys xs = dedup_first_seen xs"
  by (simp add: list_dict_fromkeys_def foldl_dict_insert_key)

lemma set_dedup_first_seen: "set (dedup_first_seen xs) = set xs"
  by (induction xs rule: dedup_first_seen.induct) auto

lemma distinct_dedup_first_seen: "distinct (dedup_first_seen xs)"
  by (induction xs rule: dedup_first_seen.induct) (auto simp: set_dedup_first_seen)

lemma dedup_first_seen_distinct: "distinct xs \<Longrightarrow> dedup_first_seen xs = xs"
  by (induction xs) auto

lemma dedup_first_seen_append:
  "dedup_first_seen (xs @ ys) =
     dedup_first_seen xs @ dedup_first_seen (filter (\<lambda>y. y \<notin> set xs) ys)"
  using foldl_dict_insert_key [of "[]" "xs @ ys"] foldl_dict_insert_key [of "[]" xs]
    foldl_dict_insert_key [of "dedup_first_seen xs" ys]
  by (simp add: set_dedup_first_seen)

lemma dedup_first_seen_absorb:
  "dedup_first_seen (dedup_first_seen (xs @ ys) @ ys) = dedup_first_seen (xs @ ys)"
proof -
  have "filter (\<lambda>y. y \<notin> set (dedup_first_seen (xs @ ys))) ys = []"
    by (simp add: filter_empty_conv set_dedup_first_seen)
  then show ?thesis
    using dedup_first_seen_append [of "dedup_first_seen (xs @ ys)" ys]
    by (simp add: dedup_first_seen_distinct distinct_dedup_first_seen)
qed

lemma fromkeys_absorb:
  "list_dict_fromkeys (list_dict_fromkeys (xs @ ys) @ ys) = list_dict_fromkeys (xs @ ys)"
  by (simp add: list_dict_fromkeys_eq dedup_first_seen_absorb)

section \<open>Merging: append, replace, prices, idempotence\<close>

text \<open>
  C5. In append mode each of the five list fields of the merged record is the
  concatenation of the record's entries and the delta's entries with later repetitions
  removed, every token at the place where it was first seen. The code deduplicates through
  an insertion-ordered dictionary; \<open>dedup_first_seen\<close> is the specification's wording.
\<close>

theorem append_merge_is_dedup_concat:
  "brands (merge_preferences cur new_prefs True) = dedup_first_seen (brands cur @ brands new_prefs) \<and>
   categories (merge_preferences cur new_prefs True) =
     dedup_first_seen (categories cur @ categories new_prefs) \<and>
   colors (merge_preferences cur new_prefs True) = dedup_first_seen (colors cur @ colors new_prefs) \<and>
   materials (merge_preferences cur new_prefs True) =
     dedup_first_seen (materials cur @ materials new_prefs) \<and>
   features (merge_preferences cur new_prefs True) =
     dedup_first_seen (features cur @ features new_prefs)"
  by (simp add: merge_preferences_def Let_def list_dict_fromkeys_eq)

text \<open>Existing colors black, red and delta colors red, blue give black, red, blue.\<close>

theorem append_merge_is_dedup_concat_witness:
  "colors (merge_preferences (empty_preferences\<lparr>colors := [''black'', ''red'']\<rparr>)
     (empty_preferences\<lparr>colors := [''red'', ''blue'']\<rparr>) True) = [''black'', ''red'', ''blue'']"
  using append_merge_is_dedup_concat [of "empty_preferences\<lparr>colors := [''black'', ''red'']\<rparr>"
     "empty_preferences\<lparr>colors := [''red'', ''blue'']\<rparr>"]
  by (simp add: empty_preferences_def)

text \<open>
  C6. In replace mode a list field of the merged record is the delta's value when that
  value is not empty, and the record's own value when it is empty.
\<close>

theorem replace_merge_fields:
  "(brands new_prefs \<noteq> [] \<longrightarrow> brands (merge_preferences cur new_prefs False) = brands new_prefs) \<and>
   (brands new_prefs = [] \<longrightarrow> brands (merge_preferences cur new_prefs False) = brands cur) \<and>
   (categories new_prefs \<noteq> [] \<longrightarrow>
      categories (merge_preferences cur new_prefs False) = categories new_prefs) \<and>
   (categories new_prefs = [] \<longrightarrow>
      categories (merge_preferences cur new_prefs False) = categories cur) \<and>
   (colors new_prefs \<noteq> [] \<longrightarrow> colors (merge_preferences cur new_prefs False) = colors new_prefs) \<and>
   (colors new_prefs = [] \<longrightarrow> colors (merge_preferences cur new_prefs False) = colors cur) \<and>
   (materials new_prefs \<noteq> [] \<longrightarrow>
      materials (merge_preferences cur new_prefs False) = materials new_prefs) \<and>
   (materials new_prefs = [] \<longrightarrow>
      materials (merge_preferences cur new_prefs False) = materials cur) \<and>
   (features new_prefs \<noteq> [] \<longrightarrow>
      features (merge_preferences cur new_prefs False) = features new_prefs) \<and>
   (features new_prefs = [] \<longrightarrow> features (merge_preferences cur new_prefs False) = features cur)"
  by (simp add: merge_preferences_def Let_def)

theorem replace_merge_fields_witness:
  "categories (empty_preferences\<lparr>categories := [''backpack'']\<rparr>) \<noteq> [] \<and>
   colors (empty_preferences\<lparr>categories := [''backpack'']\<rparr>) = [] \<and>
   categories (merge_preferences (empty_preferences\<lparr>categories := [''tote''], colors := [''red'']\<rparr>)
      (empty_preferences\<lparr>categories := [''backpack'']\<rparr>) False) = [''backpack''] \<and>
   colors (merge_preferences (empty_preferences\<lparr>categories := [''tote''], colors := [''red'']\<rparr>)
      (empty_preferences\<lparr>categories := [''backpack'']\<rparr>) False) = [''red'']"
  using replace_merge_fields [of "empty_preferences\<lparr>categories := [''backpack'']\<rparr>"
      "empty_preferences\<lparr>categories := [''tote''], colors := [''red'']\<rparr>"]
  by (simp add: empty_preferences_def)

text \<open>
  C7. In both modes a price bound that the delta sets replaces the record's bound, and a
  bound that the delta leaves null keeps the record's bound.
\<close>

theorem price_overwrite_any_mode:
  "(price_min new_prefs = Some v \<longrightarrow>
      price_min (merge_preferences cur new_prefs append_mode) = Some v) \<and>
   (price_min new_prefs = None \<longrightarrow>
      price_min (merge_preferences cur new_prefs append_mode) = price_min cur) \<and>
   (price_max new_prefs = Some v' \<longrightarrow>
      price_max (merge_preferences cur new_prefs append_mode) = Some v') \<and>
   (price_max new_prefs = None \<longrightarrow>
      price_max (merge_preferences cur new_prefs append_mode) = price_max cur)"
  by (simp add: merge_preferences_def Let_def)

text \<open>A record with maximum 200 merged in append mode with a delta of maximum 100 has maximum 100.\<close>

theorem price_overwrite_any_mode_witness:
  "price_max (empty_preferences\<lparr>price_max := Some 100\<rparr>) = Some 100 \<and>
   price_min (empty_preferences\<lparr>price_max := Some 100\<rparr>) = None \<and>
   price_max (merge_preferences (empty_preferences\<lparr>price_min := Some 20, price_max := Some 200\<rparr>)
      (empty_preferences\<lparr>price_max := Some 100\<rparr>) True) = Some 100 \<and>
   price_min (merge_preferences (empty_preferences\<lparr>price_min := Some 20, price_max := Some 200\<rparr>)
      (empty_preferences\<lparr>price_max := Some 100\<rparr>) True) = Some 20"
  using price_overwrite_any_mode [of "empty_preferences\<lparr>price_max := Some 100\<rparr>" 0
      "empty_preferences\<lparr>price_min := Some 20, price_max := Some 200\<rparr>" True 100]
  by (simp add: empty_preferences_def)

text \<open>
  C8. Merging the same delta in the same mode a second time changes nothing.
\<close>

theorem merge_idempotent:
  "merge_preferences (merge_preferences cur new_prefs append_mode) new_prefs append_mode =
   merge_preferences cur new_prefs append_mode"
proof (cases append_mode)
  case True
  then show ?thesis
    by (simp add: merge_preferences_def Let_def fromkeys_absorb split: option.splits)
next
  case False
  then show ?thesis
    by (simp add: merge_preferences_def Let_def split: option.splits)
qed

section \<open>Category normalisation and the merged features\<close>








text \<open>
  C4, evaluated on the code. The vocabulary \<open>BAG_CATEGORIES\<close> lists \<open>tote\<close>, not \<open>tote bag\<close>
  as the correction table and the extraction prompt do. So the token \<open>tote\<close> is accepted as
  it is (it is neither rewritten to \<open>tote bag\<close> nor omitted), and the token \<open>tote bag\<close>, which
  the prompt asks the language model to use, fails every test and is moved to features.
\<close>

theorem tote_stays_tote_and_tote_bag_becomes_feature:
  "validate_categories [''tote''] = ([''tote''], []) \<and>
   validate_categories [''tote bag''] = ([], [''tote bag'']) \<and>
   ''tote bag'' \<notin> set BAG_CATEGORIES"
  by code_simp




section \<open>Turns that the router should have ended\<close>

text \<open>
  C1, evaluated on the code. The utterance \<open>weather\<close> holds no shopping term and no courtesy
  term, and the first node sets the redirect message. The graph then runs the second node all
  the same: with no chain configured it answers with the canned conversation reply, which
  replaces the redirect message, and the turn is appended to the chat memory.
\<close>

theorem out_of_domain_redirect_is_overwritten:
  "\<not> is_relevant_to_shopping ''weather'' \<and>
   process_message unconfigured_env ''weather'' new_session =
     (canned_reply,
      new_session\<lparr>messages := [HumanMessage ''weather'', AIMessage canned_reply]\<rparr>) \<and>
   canned_reply \<noteq> redirect_message"
  by code_simp

text \<open>
  C3, evaluated on the code. With a preference set, the two-word utterance
  \<open>clear preferences\<close> counts as a short refinement, so the turn is a product search: the
  record keeps its color and the answer is the result of the search, not the acknowledgement.
\<close>

theorem reset_phrase_is_routed_to_search:
  "any_in [''clear preferences'', ''reset preferences'', ''start over''] (lower ''clear preferences'') \<and>
   process_message unconfigured_env ''clear preferences'' red_session =
     (no_products_message,
      red_session\<lparr>messages :=
        [HumanMessage ''clear preferences'', AIMessage no_products_message]\<rparr>) \<and>
   colors (current_preferences red_session) = [''red'']"
  by code_simp

section \<open>Product search: filter, ranking, truncation\<close>


















section \<open>Failing collaborators\<close>











end
